theory Spec2Isabelle
  imports Main
begin

section \<open>The static-aware cached fetch primitive of \<^verbatim>\<open>src/static.ts\<close>\<close>

text \<open>
  The module holds one process-wide cache (\<^verbatim>\<open>staticCache\<close>) and exports one function,
  \<^verbatim>\<open>useStatic\<close>. The function body runs synchronously; what it starts (a factory call, a
  fetch of a JSON artifact, a server prefetch hook) finishes later, in callbacks. The
  model makes each callback a function on an explicit state, and every call to a
  collaborator outside the module (the factory, \<^verbatim>\<open>fetch\<close>, \<^verbatim>\<open>writeFileSync\<close>,
  \<^verbatim>\<open>console.log\<close>) an entry of a trace, so that "exactly one call" is a statement about
  the trace.
\<close>

subsection \<open>Values\<close>

text \<open>
  The cached values are arbitrary JavaScript values (\<^verbatim>\<open>Record<string, any>\<close>). Numbers are
  modelled as integers: the only property of a number the module looks at is whether it is
  truthy. \<^verbatim>\<open>undefined\<close> and \<^verbatim>\<open>NaN\<close>, two more falsy values, are left out. A BigInt is a
  value that \<^verbatim>\<open>JSON.stringify\<close> refuses with a \<^verbatim>\<open>TypeError\<close>.
\<close>

datatype jsval =
    JNull
  | JBool bool
  | JNum int
  | JStr string
  | JBigInt int
  | JArr "jsval list"
  | JObj "(string \<times> jsval) list"

text \<open>JavaScript's \<^verbatim>\<open>ToBoolean\<close>, as applied by \<^verbatim>\<open>if (result.value)\<close>.\<close>

fun truthy :: "jsval \<Rightarrow> bool" where
  "truthy JNull = False"
| "truthy (JBool b) = b"
| "truthy (JNum n) = (n \<noteq> 0)"
| "truthy (JStr s) = (s \<noteq> [])"
| "truthy (JBigInt n) = (n \<noteq> 0)"
| "truthy (JArr xs) = True"
| "truthy (JObj kvs) = True"

type_synonym err = string

datatype 'a outcome = Resolved 'a | Rejected err

text \<open>
  What \<^verbatim>\<open>fetch\<close> resolves to: the \<^verbatim>\<open>ok\<close> flag of the response and what
  \<^verbatim>\<open>response.json()\<close> would settle to.
\<close>

datatype response = Response (ok: bool) (json: "jsval outcome")

subsection \<open>Environment and state\<close>

text \<open>
  The ambient flags, the template constants and the library functions the module calls.
  \<^verbatim>\<open>joinURL\<close> (package ufo), \<^verbatim>\<open>path.join\<close>, \<^verbatim>\<open>JSON.stringify\<close> and \<^verbatim>\<open>fs.writeFileSync\<close>
  are not part of the module and are parameters; \<^verbatim>\<open>writeFileSync\<close> answers with the
  error it throws, if any, and \<^verbatim>\<open>JSON.stringify\<close> with the text or with the error it
  throws (on a BigInt, on an object that contains itself, on a throwing \<^verbatim>\<open>toJSON\<close>).
  \<^verbatim>\<open>cdnURL\<close> is \<^verbatim>\<open>window[globalContext].$config?.app?.cdnURL\<close>,
  \<^verbatim>\<open>None\<close> when the optional chain yields \<^verbatim>\<open>undefined\<close>.
\<close>

record env =
  process_client :: bool
  process_static :: bool
  keyBase :: string
  staticPath :: string
  options_publicPath :: string
  cdnURL :: "string option"
  joinURL :: "string \<Rightarrow> string \<Rightarrow> string"
  path_join :: "string \<Rightarrow> string \<Rightarrow> string"
  JSON_stringify :: "jsval \<Rightarrow> err + string"
  writeFileSync :: "string \<Rightarrow> string \<Rightarrow> err option"

datatype event =
    FactoryCall string string
  | Fetch string
  | WriteFileSync string string
  | ConsoleLog err

text \<open>
  A task is a promise that has not settled yet, with what its continuation has captured:
  \<^item> \<^verbatim>\<open>ClientFactory\<close>: \<^verbatim>\<open>factory(param.value, key.value).then(r => ...)\<close> of
    \<^verbatim>\<open>onFailure\<close>; the continuation captures nothing and reads \<^verbatim>\<open>key.value\<close> when it runs;
  \<^item> \<^verbatim>\<open>ClientFetch k\<close>: the \<^verbatim>\<open>fetch(...)\<close> chain of the watch callback, which captures
    the callback's argument \<^verbatim>\<open>key\<close>;
  \<^item> \<^verbatim>\<open>ServerFactory _key _param\<close>: \<^verbatim>\<open>await factory(_param, _key)\<close> in the prefetch
    hook, which captures both locals.
\<close>

datatype task =
    ClientFactory
  | ClientFetch string
  | ServerFactory string string

record state =
  staticCache :: "string \<rightharpoonup> jsval"
  result :: jsval
  param :: string
  pending :: "task list"
  hooks :: nat
  trace :: "event list"
  rejections :: "err list"

text \<open>
  \<^verbatim>\<open>hooks\<close> counts the callbacks registered with \<^verbatim>\<open>onServerPrefetch\<close> and not yet run;
  \<^verbatim>\<open>rejections\<close> collects the rejections that leave the module unhandled, in the order
  they happen.
\<close>

subsection \<open>The module\<close>

text \<open>\<^verbatim>\<open>param: Ref<string> = ref('')\<close>\<close>

definition param_or_default :: "string option \<Rightarrow> string" where
  "param_or_default p = (case p of None \<Rightarrow> [] | Some v \<Rightarrow> v)"

text \<open>\<^verbatim>\<open>computed(() => `${keyBase}-${param.value}`)\<close>\<close>

definition key_of :: "string \<Rightarrow> string \<Rightarrow> string" where
  "key_of kb p = kb @ ''-'' @ p"

definition key :: "env \<Rightarrow> state \<Rightarrow> string" where
  "key E s = key_of (keyBase E) (param s)"

text \<open>\<^verbatim>\<open>cdnURL || '<%= options.publicPath %>'\<close>: the empty string is falsy.\<close>

definition publicPath :: "env \<Rightarrow> string" where
  "publicPath E =
     (case cdnURL E of
        None \<Rightarrow> options_publicPath E
      | Some u \<Rightarrow> if u \<noteq> [] then u else options_publicPath E)"

text \<open>Lines 12 to 25.\<close>

definition writeFile :: "env \<Rightarrow> string \<Rightarrow> string \<Rightarrow> state \<Rightarrow> state" where
  "writeFile E k v s =
     (if process_client E \<or> \<not> process_static E then s
      else
        (let path = path_join E (staticPath E) (k @ ''.json'')
         in case writeFileSync E path v of
              None \<Rightarrow> s\<lparr>trace := trace s @ [WriteFileSync path v]\<rparr>
            | Some e \<Rightarrow> s\<lparr>trace := trace s @ [WriteFileSync path v, ConsoleLog e]\<rparr>))"

text \<open>Line 78: \<^verbatim>\<open>if (result.value) staticCache[key.value] = result.value\<close>\<close>

definition seed_cache :: "env \<Rightarrow> state \<Rightarrow> state" where
  "seed_cache E s =
     (if truthy (result s) then s\<lparr>staticCache := (staticCache s)(key E s \<mapsto> result s)\<rparr>
      else s)"

text \<open>
  Lines 84 to 89. Calling \<^verbatim>\<open>onFailure\<close> invokes the factory with the parameter and the key
  of that moment and leaves the promise pending.
\<close>

definition onFailure :: "env \<Rightarrow> state \<Rightarrow> state" where
  "onFailure E s =
     s\<lparr>trace := trace s @ [FactoryCall (param s) (key E s)],
       pending := pending s @ [ClientFactory]\<rparr>"

text \<open>
  The continuation of \<^verbatim>\<open>onFailure\<close>, lines 85 to 88:
  \<^verbatim>\<open>r => { staticCache[key.value] = r; result.value = r }\<close>. Here \<^verbatim>\<open>key\<close> is the
  computed reference of line 75, read when the continuation runs. Nothing handles a
  rejection of the promise.
\<close>

definition onFailure_then :: "env \<Rightarrow> jsval outcome \<Rightarrow> state \<Rightarrow> state" where
  "onFailure_then E out s =
     (case out of
        Resolved r \<Rightarrow> s\<lparr>staticCache := (staticCache s)(key E s \<mapsto> r), result := r\<rparr>
      | Rejected e \<Rightarrow> s\<lparr>rejections := rejections s @ [e]\<rparr>)"

text \<open>
  The watch callback, lines 92 to 111. Its argument \<^verbatim>\<open>key\<close> shadows the computed
  reference. \<^verbatim>\<open>key in staticCache\<close> is the test for a cache hit; every key has the form
  \<^verbatim>\<open>keyBase-param\<close> and so contains a hyphen, which no property inherited from
  \<^verbatim>\<open>Object.prototype\<close> does, so the test is membership in the map.
\<close>

definition watch_callback :: "env \<Rightarrow> string \<Rightarrow> state \<Rightarrow> state" where
  "watch_callback E k s =
     (case staticCache s k of
        Some v \<Rightarrow> s\<lparr>result := v\<rparr>
      | None \<Rightarrow>
          if \<not> process_static E then onFailure E s
          else s\<lparr>trace := trace s @ [Fetch (joinURL E (publicPath E) (k @ ''.json''))],
                 pending := pending s @ [ClientFetch k]\<rparr>)"

text \<open>
  The promise chain of lines 100 to 109, run when the fetch has settled:
  a response that is not ok throws, a failing \<^verbatim>\<open>response.json()\<close> rejects, and
  \<^verbatim>\<open>.catch(onFailure)\<close> handles both and a rejected fetch.
\<close>

definition fetch_then :: "env \<Rightarrow> string \<Rightarrow> response outcome \<Rightarrow> state \<Rightarrow> state" where
  "fetch_then E k out s =
     (case out of
        Rejected e \<Rightarrow> onFailure E s
      | Resolved resp \<Rightarrow>
          if \<not> ok resp then onFailure E s
          else
            (case json resp of
               Rejected e \<Rightarrow> onFailure E s
             | Resolved j \<Rightarrow> s\<lparr>staticCache := (staticCache s)(k \<mapsto> j), result := j\<rparr>))"

text \<open>The server branch of \<^verbatim>\<open>useStatic\<close>, lines 117 to 127.\<close>

definition server_setup :: "env \<Rightarrow> state \<Rightarrow> state" where
  "server_setup E s =
     (case staticCache s (key E s) of
        Some v \<Rightarrow> s\<lparr>result := v\<rparr>
      | None \<Rightarrow> s\<lparr>hooks := Suc (hooks s)\<rparr>)"

text \<open>
  The prefetch hook up to its \<^verbatim>\<open>await\<close>, lines 122 to 124: it reads \<^verbatim>\<open>key.value\<close> and
  \<^verbatim>\<open>param.value\<close> into locals and calls the factory.
\<close>

definition prefetch_start :: "env \<Rightarrow> state \<Rightarrow> state" where
  "prefetch_start E s =
     s\<lparr>trace := trace s @ [FactoryCall (param s) (key E s)],
       pending := pending s @ [ServerFactory (key E s) (param s)]\<rparr>"

text \<open>
  The prefetch hook after its \<^verbatim>\<open>await\<close>, lines 124 to 126. A rejected factory rejects the
  hook's own promise, which goes to the framework. Line 126 evaluates
  \<^verbatim>\<open>JSON.stringify(result.value)\<close> as the argument of \<^verbatim>\<open>writeFile\<close>, after the two stores,
  before \<^verbatim>\<open>writeFile\<close> tests the flags and outside its \<^verbatim>\<open>try\<close>: when it throws, the hook
  rejects with that error and \<^verbatim>\<open>writeFile\<close> is not called.
\<close>

definition prefetch_resume ::
  "env \<Rightarrow> string \<Rightarrow> string \<Rightarrow> jsval outcome \<Rightarrow> state \<Rightarrow> state" where
  "prefetch_resume E k p out s =
     (case out of
        Resolved r \<Rightarrow>
          (let s1 = s\<lparr>result := r, staticCache := (staticCache s)(k \<mapsto> r)\<rparr>
           in case JSON_stringify E r of
                Inl e \<Rightarrow> s1\<lparr>rejections := rejections s1 @ [e]\<rparr>
              | Inr v \<Rightarrow> writeFile E k v s1)
      | Rejected e \<Rightarrow> s\<lparr>rejections := rejections s @ [e]\<rparr>)"

text \<open>
  \<^verbatim>\<open>useStatic\<close>, lines 70 to 131, from the state in which \<^verbatim>\<open>result\<close> holds what
  \<^verbatim>\<open>ssrRef(null, key.value)\<close> returned (module \<^verbatim>\<open>./ssr-ref\<close> is not part of the source
  at hand, so that value is a parameter). \<^verbatim>\<open>watch\<close> with \<^verbatim>\<open>immediate: true\<close> runs the
  callback once, with the current key.
\<close>

definition useStatic :: "env \<Rightarrow> state \<Rightarrow> state" where
  "useStatic E s =
     (let s1 = seed_cache E s
      in if process_client E then watch_callback E (key E s1) s1
         else server_setup E s1)"

text \<open>The state \<^verbatim>\<open>useStatic\<close> starts from: the shared cache, the value of the handle, the parameter.\<close>

definition call_state :: "(string \<rightharpoonup> jsval) \<Rightarrow> jsval \<Rightarrow> string option \<Rightarrow> state" where
  "call_state c v p =
     \<lparr>staticCache = c, result = v, param = param_or_default p,
      pending = [], hooks = 0, trace = [], rejections = []\<rparr>"

subsection \<open>Scheduling\<close>

text \<open>
  The execution model is one thread with cooperative scheduling: between two callbacks
  the parameter may change and any pending promise may settle. An input is one such
  happening. Writing \<^verbatim>\<open>param.value\<close> changes the computed key, and the watcher (installed
  on the client only) runs its callback with the new key when the key differs from the
  old one. The framework defers that callback to the end of the current tick; the model
  runs it before the next input. \<^verbatim>\<open>Settle i r\<close> settles the \<open>i\<close>-th pending promise with
  \<open>r\<close>, and \<^verbatim>\<open>RunPrefetch\<close> is the framework running one registered prefetch hook. An
  input that cannot happen (no such promise, no hook, a reply of the wrong kind) gives
  \<^verbatim>\<open>None\<close>.
\<close>

datatype reply = FactoryReply "jsval outcome" | FetchReply "response outcome"

datatype input =
    SetParam string
  | RunPrefetch
  | Settle nat reply

definition set_param :: "env \<Rightarrow> string \<Rightarrow> state \<Rightarrow> state" where
  "set_param E p s =
     (let s1 = s\<lparr>param := p\<rparr>
      in if process_client E \<and> key E s1 \<noteq> key E s then watch_callback E (key E s1) s1
         else s1)"

fun settle :: "env \<Rightarrow> task \<Rightarrow> reply \<Rightarrow> state \<Rightarrow> state option" where
  "settle E ClientFactory (FactoryReply out) s = Some (onFailure_then E out s)"
| "settle E (ClientFetch k) (FetchReply out) s = Some (fetch_then E k out s)"
| "settle E (ServerFactory k p) (FactoryReply out) s = Some (prefetch_resume E k p out s)"
| "settle E _ _ s = None"

fun step :: "env \<Rightarrow> input \<Rightarrow> state \<Rightarrow> state option" where
  "step E (SetParam p) s = Some (set_param E p s)"
| "step E RunPrefetch s =
     (if hooks s = 0 then None
      else Some (prefetch_start E (s\<lparr>hooks := hooks s - 1\<rparr>)))"
| "step E (Settle i r) s =
     (if i < length (pending s)
      then settle E (pending s ! i) r
             (s\<lparr>pending := take i (pending s) @ drop (Suc i) (pending s)\<rparr>)
      else None)"

fun run :: "env \<Rightarrow> input list \<Rightarrow> state \<Rightarrow> state option" where
  "run E [] s = Some s"
| "run E (i # is) s = (case step E i s of None \<Rightarrow> None | Some s' \<Rightarrow> run E is s')"

subsection \<open>The specification's vocabulary and concrete inputs\<close>

text \<open>
  The specification calls the handle "initialized to an empty/null state": a handle is
  empty when it holds \<^verbatim>\<open>null\<close>.
\<close>

definition handle_empty :: "jsval \<Rightarrow> bool" where
  "handle_empty v = (v = JNull)"

text \<open>
  An environment for the scenarios of the specification: key base \<^verbatim>\<open>post\<close>, no CDN
  URL configured, the flags and the behaviour of \<^verbatim>\<open>writeFileSync\<close> left open.
\<close>

definition demo_stringify :: "jsval \<Rightarrow> err + string" where
  "demo_stringify v =
     (case v of
        JNull \<Rightarrow> Inr ''null''
      | JBool b \<Rightarrow> Inr (if b then ''true'' else ''false'')
      | JNum n \<Rightarrow> Inr (if n = 0 then ''0'' else ''<number>'')
      | JStr s \<Rightarrow> Inr ''<string>''
      | JBigInt n \<Rightarrow> Inl ''TypeError: Do not know how to serialize a BigInt''
      | JArr xs \<Rightarrow> Inr ''<array>''
      | JObj kvs \<Rightarrow> Inr ''<object>'')"

definition demo_env :: "bool \<Rightarrow> bool \<Rightarrow> (string \<Rightarrow> string \<Rightarrow> err option) \<Rightarrow> env" where
  "demo_env c g w =
     \<lparr>process_client = c, process_static = g, keyBase = ''post'',
      staticPath = ''dist/static'', options_publicPath = ''/_nuxt/'', cdnURL = None,
      joinURL = (\<lambda>b f. b @ f), path_join = (\<lambda>d f. d @ ''/'' @ f),
      JSON_stringify = demo_stringify, writeFileSync = w\<rparr>"

definition disk_ok :: "string \<Rightarrow> string \<Rightarrow> err option" where
  "disk_ok path v = None"

definition disk_full :: "string \<Rightarrow> string \<Rightarrow> err option" where
  "disk_full path v = Some ''ENOSPC''"

definition title_A :: jsval where
  "title_A = JObj [(''title'', JStr ''A'')]"

definition title_B :: jsval where
  "title_B = JObj [(''title'', JStr ''B'')]"

section \<open>Properties\<close>

lemmas module_defs = key_def key_of_def param_or_default_def publicPath_def writeFile_def
  seed_cache_def onFailure_def onFailure_then_def watch_callback_def fetch_then_def
  server_setup_def prefetch_start_def prefetch_resume_def useStatic_def call_state_def
  set_param_def

lemmas demo_defs = demo_env_def demo_stringify_def disk_ok_def disk_full_def title_A_def
  title_B_def handle_empty_def

lemma param_watch_callback: "param (watch_callback E k s) = param s"
  by (simp add: watch_callback_def onFailure_def split: option.split)

subsection \<open>Key derivation\<close>

text \<open>
  Claim C5. The key is the key base, a hyphen and the parameter, for every key base and
  every parameter. It is a function of these two alone: it follows the parameter when the
  parameter is set, and two calls that agree on key base and parameter have the same key
  whatever the rest of their environment and state. An omitted parameter is the empty
  string, which gives the key base followed by a hyphen.
\<close>

theorem key_derivation:
  "key_of kb p = kb @ ''-'' @ p
   \<and> key E s = keyBase E @ ''-'' @ param s
   \<and> key E (set_param E p s) = keyBase E @ ''-'' @ p
   \<and> key_of kb (param_or_default None) = kb @ ''-''
   \<and> key_of kb (param_or_default (Some p)) = kb @ ''-'' @ p
   \<and> (keyBase E = keyBase E' \<and> param s = param s' \<longrightarrow> key E s = key E' s')"
  by (simp add: key_def key_of_def param_or_default_def set_param_def Let_def
      param_watch_callback)

theorem key_derivation_witness:
  "key_of ''post'' ''42'' = ''post-42''
   \<and> key (demo_env True False disk_ok) (call_state Map.empty JNull None) = ''post-''
   \<and> key (demo_env True False disk_ok)
        (set_param (demo_env True False disk_ok) ''7'' (call_state Map.empty JNull (Some ''42'')))
      = ''post-7''
   \<and> key (demo_env True False disk_ok) (call_state Map.empty JNull (Some ''42''))
      = key (demo_env False True disk_full) (call_state [''x'' \<mapsto> JNum 1] title_A (Some ''42''))"
  using key_derivation [where kb = "''post''" and p = "''42''"
      and E = "demo_env True False disk_ok" and s = "call_state Map.empty JNull (Some ''42'')"
      and E' = "demo_env False True disk_full"
      and s' = "call_state [''x'' \<mapsto> JNum 1] title_A (Some ''42'')"]
  by (simp add: module_defs demo_defs Let_def)

subsection \<open>Cache hits\<close>

text \<open>
  Claim C1. When the key is in the cache as resolution starts, the watch callback (client)
  and the setup branch (server) only set the handle to the cached value: the trace gets no
  factory call and no fetch, no promise is left pending and no prefetch hook is
  registered. So a second resolution of a key, after a first one has stored its value
  (from the factory, from a fetched artifact, or from the server's prefetch hook),
  changes nothing at all.
\<close>

theorem cache_hit_skips_factory_and_network:
  "(staticCache s k = Some v \<longrightarrow> watch_callback E k s = s\<lparr>result := v\<rparr>)
   \<and> (staticCache s (key E s) = Some v \<longrightarrow> server_setup E s = s\<lparr>result := v\<rparr>)
   \<and> (staticCache s k = Some v \<longrightarrow>
        trace (watch_callback E k s) = trace s \<and> pending (watch_callback E k s) = pending s
        \<and> result (watch_callback E k s) = v)
   \<and> (staticCache s (key E s) = Some v \<longrightarrow>
        trace (server_setup E s) = trace s \<and> hooks (server_setup E s) = hooks s
        \<and> pending (server_setup E s) = pending s \<and> result (server_setup E s) = v)
   \<and> watch_callback E (key E s) (onFailure_then E (Resolved r) s)
        = onFailure_then E (Resolved r) s
   \<and> watch_callback E k (fetch_then E k (Resolved (Response True (Resolved r))) s)
        = fetch_then E k (Resolved (Response True (Resolved r))) s
   \<and> server_setup E (prefetch_resume E (key E s) p (Resolved r) s)
        = prefetch_resume E (key E s) p (Resolved r) s"
proof -
  have hit: "watch_callback E k s = s\<lparr>result := v\<rparr>" if "staticCache s k = Some v" for s k v
    using that by (simp add: watch_callback_def)
  have hit_server: "server_setup E s = s\<lparr>result := v\<rparr>"
    if "staticCache s (key E s) = Some v" for s v
    using that by (simp add: server_setup_def)
  have again_factory: "watch_callback E (key E s) (onFailure_then E (Resolved r) s)
        = onFailure_then E (Resolved r) s"
    by (simp add: watch_callback_def onFailure_then_def key_def)
  have again_fetch: "watch_callback E k (fetch_then E k (Resolved (Response True (Resolved r))) s)
        = fetch_then E k (Resolved (Response True (Resolved r))) s"
    by (simp add: watch_callback_def fetch_then_def)
  have again_server: "server_setup E (prefetch_resume E (key E s) p (Resolved r) s)
        = prefetch_resume E (key E s) p (Resolved r) s"
    by (simp add: server_setup_def prefetch_resume_def key_def writeFile_def Let_def
        split: option.split sum.split)
  show ?thesis
    using hit [of s k v] hit_server [of s v] again_factory again_fetch again_server
    by simp
qed

theorem cache_hit_skips_factory_and_network_witness:
  "staticCache (call_state [''post-42'' \<mapsto> title_B] JNull (Some ''42'')) ''post-42''
     = Some title_B
   \<and> watch_callback (demo_env True True disk_ok) ''post-42''
        (call_state [''post-42'' \<mapsto> title_B] JNull (Some ''42''))
      = (call_state [''post-42'' \<mapsto> title_B] JNull (Some ''42''))\<lparr>result := title_B\<rparr>
   \<and> trace (watch_callback (demo_env True True disk_ok) ''post-42''
        (call_state [''post-42'' \<mapsto> title_B] JNull (Some ''42''))) = []
   \<and> trace (server_setup (demo_env True True disk_ok)
        (call_state [''post-42'' \<mapsto> title_B] JNull (Some ''42''))) = []
   \<and> hooks (server_setup (demo_env True True disk_ok)
        (call_state [''post-42'' \<mapsto> title_B] JNull (Some ''42''))) = 0
   \<and> run (demo_env True False disk_ok)
        [Settle 0 (FactoryReply (Resolved title_A)), SetParam ''7'', SetParam ''42'']
        (useStatic (demo_env True False disk_ok) (call_state Map.empty JNull (Some ''42'')))
      = Some ((call_state [''post-42'' \<mapsto> title_A] title_A (Some ''42''))
               \<lparr>trace := [FactoryCall ''42'' ''post-42'', FactoryCall ''7'' ''post-7''],
                pending := [ClientFactory]\<rparr>)"
  using cache_hit_skips_factory_and_network [where E = "demo_env True True disk_ok"
      and s = "call_state [''post-42'' \<mapsto> title_B] JNull (Some ''42'')"
      and k = "''post-42''" and v = title_B]
  by (simp add: module_defs demo_defs Let_def)

subsection \<open>Cache misses on the client\<close>

text \<open>
  Claim C2. On the client in a static-generation build, a miss for key \<open>k\<close> adds exactly
  one fetch of \<^verbatim>\<open>joinURL(publicPath, k + ".json")\<close> to the trace and leaves its promise
  pending. When the response is ok and its body parses, the body is stored in the cache
  under \<open>k\<close> and in the handle, and nothing else happens. When the fetch rejects, the
  response is not ok, or the body does not parse, the chain equals one call of
  \<^verbatim>\<open>onFailure\<close>: exactly one factory call is added to the trace, and the list of
  rejections that leave the module is unchanged, so the failure of the fetch is not
  surfaced.
\<close>

theorem static_client_miss_fetches_then_falls_back:
  assumes "process_static E" and "staticCache s k = None"
  shows "watch_callback E k s
           = s\<lparr>trace := trace s @ [Fetch (joinURL E (publicPath E) (k @ ''.json''))],
               pending := pending s @ [ClientFetch k]\<rparr>
         \<and> fetch_then E k (Resolved (Response True (Resolved j))) s'
           = s'\<lparr>staticCache := (staticCache s')(k \<mapsto> j), result := j\<rparr>
         \<and> fetch_then E k (Resolved (Response False body)) s' = onFailure E s'
         \<and> fetch_then E k (Rejected e) s' = onFailure E s'
         \<and> fetch_then E k (Resolved (Response True (Rejected e))) s' = onFailure E s'
         \<and> trace (onFailure E s') = trace s' @ [FactoryCall (param s') (key E s')]
         \<and> pending (onFailure E s') = pending s' @ [ClientFactory]
         \<and> rejections (onFailure E s') = rejections s'
         \<and> staticCache (onFailure E s') = staticCache s'
         \<and> result (onFailure E s') = result s'"
  using assms by (simp add: watch_callback_def fetch_then_def onFailure_def)

theorem static_client_miss_fetches_then_falls_back_witness:
  "process_static (demo_env True True disk_ok)
   \<and> staticCache (call_state Map.empty JNull (Some ''42'')) ''post-42'' = None
   \<and> useStatic (demo_env True True disk_ok) (call_state Map.empty JNull (Some ''42''))
      = (call_state Map.empty JNull (Some ''42''))
          \<lparr>trace := [Fetch ''/_nuxt/post-42.json''], pending := [ClientFetch ''post-42'']\<rparr>
   \<and> run (demo_env True True disk_ok)
         [Settle 0 (FetchReply (Resolved (Response True (Resolved title_A))))]
         (useStatic (demo_env True True disk_ok) (call_state Map.empty JNull (Some ''42'')))
      = Some ((call_state [''post-42'' \<mapsto> title_A] title_A (Some ''42''))
               \<lparr>trace := [Fetch ''/_nuxt/post-42.json'']\<rparr>)
   \<and> run (demo_env True True disk_ok)
         [Settle 0 (FetchReply (Resolved (Response False (Rejected ''not json''))))]
         (useStatic (demo_env True True disk_ok) (call_state Map.empty JNull (Some ''42'')))
      = Some ((call_state Map.empty JNull (Some ''42''))
               \<lparr>trace := [Fetch ''/_nuxt/post-42.json'', FactoryCall ''42'' ''post-42''],
                pending := [ClientFactory]\<rparr>)"
  using static_client_miss_fetches_then_falls_back [where E = "demo_env True True disk_ok"
      and s = "call_state Map.empty JNull (Some ''42'')" and k = "''post-42''"
      and s' = "(call_state Map.empty JNull (Some ''42''))
          \<lparr>trace := [Fetch ''/_nuxt/post-42.json'']\<rparr>"
      and j = title_A and body = "Rejected ''not json''"]
  by (simp add: module_defs demo_defs Let_def)

text \<open>
  What holds of a miss on the client outside a static-generation build: the callback adds
  exactly one factory call to the trace, with the parameter and the key of that moment
  (which is the callback's key when the watcher runs it, as in \<^verbatim>\<open>useStatic\<close>), and when
  the factory resolves in a state whose parameter is still the same, the value is stored
  under that key and in the handle.
\<close>

lemma client_miss_invokes_factory_once:
  assumes "\<not> process_static E" and "staticCache s k = None"
  shows "watch_callback E k s
           = s\<lparr>trace := trace s @ [FactoryCall (param s) (key E s)],
               pending := pending s @ [ClientFactory]\<rparr>
         \<and> (process_client E \<and> \<not> truthy (result s) \<and> k = key E s \<longrightarrow>
              useStatic E s = watch_callback E k s)
         \<and> (param s' = param s \<longrightarrow>
              onFailure_then E (Resolved r) s'
                = s'\<lparr>staticCache := (staticCache s')(key E s \<mapsto> r), result := r\<rparr>)
         \<and> run E [Settle (length (pending s)) (FactoryReply (Resolved r))] (watch_callback E k s)
             = Some (s\<lparr>trace := trace s @ [FactoryCall (param s) (key E s)],
                       staticCache := (staticCache s)(key E s \<mapsto> r), result := r\<rparr>)"
  using assms
  by (simp add: watch_callback_def onFailure_def onFailure_then_def useStatic_def seed_cache_def
      key_def Let_def)

text \<open>
  Claim C3 says that on the client, outside a static-generation build, a miss calls the
  factory exactly once with the current parameter and key, and that on success the value
  is stored in the cache under that key and in the handle. The call is as claimed: with
  key base \<^verbatim>\<open>post\<close> and parameter 42 the factory is called once, with
  \<^verbatim>\<open>("42", "post-42")\<close>. The store is not: the continuation of \<^verbatim>\<open>onFailure\<close> writes under
  \<^verbatim>\<open>key.value\<close> as it is when the factory resolves. When the parameter has become 43 by
  then, the value resolved for \<^verbatim>\<open>post-42\<close> is stored under \<^verbatim>\<open>post-43\<close>, and \<^verbatim>\<open>post-42\<close>,
  the key the factory was called with, has no entry.
\<close>

theorem factory_value_stored_under_later_key:
  "useStatic (demo_env True False disk_ok) (call_state Map.empty JNull (Some ''42''))
     = (call_state Map.empty JNull (Some ''42''))
         \<lparr>trace := [FactoryCall ''42'' ''post-42''], pending := [ClientFactory]\<rparr>
   \<and> map_option (\<lambda>s. (staticCache s ''post-42'', staticCache s ''post-43'', result s))
        (run (demo_env True False disk_ok)
           [SetParam ''43'', Settle 0 (FactoryReply (Resolved title_A))]
           (useStatic (demo_env True False disk_ok) (call_state Map.empty JNull (Some ''42''))))
     = Some (None, Some title_A, title_A)"
  by (simp add: module_defs demo_defs Let_def)

subsection \<open>Cache misses on the server\<close>

text \<open>
  Claim C4 says that on the server during a static-generation build the resolved value is
  written to the file of the key. For a value that \<^verbatim>\<open>JSON.stringify\<close> refuses, here the
  BigInt 1, the hook stores the value in the handle and in the cache and then rejects:
  the trace holds the factory call and no write, although the build is a static
  generation.
\<close>

theorem unserializable_value_is_not_written:
  "process_static (demo_env False True disk_ok)
   \<and> \<not> process_client (demo_env False True disk_ok)
   \<and> run (demo_env False True disk_ok)
        [RunPrefetch, Settle 0 (FactoryReply (Resolved (JBigInt 1)))]
        (useStatic (demo_env False True disk_ok) (call_state Map.empty JNull (Some ''42'')))
      = Some ((call_state [''post-42'' \<mapsto> JBigInt 1] (JBigInt 1) (Some ''42''))
               \<lparr>trace := [FactoryCall ''42'' ''post-42''],
                rejections := [''TypeError: Do not know how to serialize a BigInt'']\<rparr>)"
  by (simp add: module_defs demo_defs Let_def)

text \<open>
  Claim C4, amended. On the server, a miss registers one prefetch hook and does nothing
  else. Run, the hook reads the key and the parameter into locals and calls the factory
  once with them. When the factory resolves, in whatever state that happens, the value
  goes into the handle and into the cache under the captured key. When
  \<^verbatim>\<open>JSON.stringify\<close> serializes the value, the trace gets one \<^verbatim>\<open>writeFileSync\<close> of the
  text to \<^verbatim>\<open>join(staticPath, key + ".json")\<close> exactly when the build is a static generation
  (followed by a \<^verbatim>\<open>console.log\<close> when the write throws), and no rejection leaves the
  module. \<^verbatim>\<open>writeFile\<close> is the identity on the client and outside static generation.
\<close>

theorem server_miss_prefetches:
  assumes "\<not> process_client E" and "staticCache s (key E s) = None"
  shows "server_setup E s = s\<lparr>hooks := Suc (hooks s)\<rparr>
         \<and> (\<not> truthy (result s) \<longrightarrow> useStatic E s = s\<lparr>hooks := Suc (hooks s)\<rparr>)
         \<and> step E RunPrefetch (server_setup E s)
             = Some (s\<lparr>trace := trace s @ [FactoryCall (param s) (key E s)],
                       pending := pending s @ [ServerFactory (key E s) (param s)]\<rparr>)
         \<and> result (prefetch_resume E k p (Resolved r) s') = r
         \<and> staticCache (prefetch_resume E k p (Resolved r) s') = (staticCache s')(k \<mapsto> r)
         \<and> pending (prefetch_resume E k p (Resolved r) s') = pending s'
         \<and> (JSON_stringify E r = Inr doc \<longrightarrow>
              rejections (prefetch_resume E k p (Resolved r) s') = rejections s'
              \<and> trace (prefetch_resume E k p (Resolved r) s')
                  = trace s' @
                    (if process_static E
                     then WriteFileSync (path_join E (staticPath E) (k @ ''.json'')) doc
                          # (case writeFileSync E (path_join E (staticPath E) (k @ ''.json''))
                                    doc of
                               None \<Rightarrow> [] | Some e \<Rightarrow> [ConsoleLog e])
                     else []))
         \<and> (process_client E' \<or> \<not> process_static E' \<longrightarrow> writeFile E' k v s' = s')"
proof -
  have registered: "server_setup E s = s\<lparr>hooks := Suc (hooks s)\<rparr>"
    using assms by (simp add: server_setup_def)
  have call: "\<not> truthy (result s) \<longrightarrow> useStatic E s = s\<lparr>hooks := Suc (hooks s)\<rparr>"
    using assms by (simp add: useStatic_def seed_cache_def server_setup_def Let_def)
  have hook: "step E RunPrefetch (server_setup E s)
             = Some (s\<lparr>trace := trace s @ [FactoryCall (param s) (key E s)],
                       pending := pending s @ [ServerFactory (key E s) (param s)]\<rparr>)"
    unfolding registered by (simp add: prefetch_start_def key_def)
  have stored: "result (prefetch_resume E k p (Resolved r) s') = r
         \<and> staticCache (prefetch_resume E k p (Resolved r) s') = (staticCache s')(k \<mapsto> r)
         \<and> pending (prefetch_resume E k p (Resolved r) s') = pending s'"
    by (simp add: prefetch_resume_def writeFile_def Let_def split: option.split sum.split)
  have written: "JSON_stringify E r = Inr doc \<longrightarrow>
              rejections (prefetch_resume E k p (Resolved r) s') = rejections s'
              \<and> trace (prefetch_resume E k p (Resolved r) s')
                  = trace s' @
                    (if process_static E
                     then WriteFileSync (path_join E (staticPath E) (k @ ''.json'')) doc
                          # (case writeFileSync E (path_join E (staticPath E) (k @ ''.json''))
                                    doc of
                               None \<Rightarrow> [] | Some e \<Rightarrow> [ConsoleLog e])
                     else [])"
    using assms(1)
    by (simp add: prefetch_resume_def writeFile_def Let_def split: option.split)
  have skipped: "process_client E' \<or> \<not> process_static E' \<longrightarrow> writeFile E' k v s' = s'"
    by (simp add: writeFile_def)
  show ?thesis
    using registered call hook stored written skipped by simp
qed

theorem server_miss_prefetches_witness:
  "\<not> process_client (demo_env False True disk_ok)
   \<and> staticCache (call_state Map.empty JNull (Some ''42''))
        (key (demo_env False True disk_ok) (call_state Map.empty JNull (Some ''42''))) = None
   \<and> JSON_stringify (demo_env False True disk_ok) title_A = Inr ''<object>''
   \<and> run (demo_env False True disk_ok) [RunPrefetch, Settle 0 (FactoryReply (Resolved title_A))]
        (useStatic (demo_env False True disk_ok) (call_state Map.empty JNull (Some ''42'')))
      = Some ((call_state [''post-42'' \<mapsto> title_A] title_A (Some ''42''))
               \<lparr>trace := [FactoryCall ''42'' ''post-42'',
                           WriteFileSync ''dist/static/post-42.json'' ''<object>'']\<rparr>)
   \<and> run (demo_env False False disk_ok) [RunPrefetch, Settle 0 (FactoryReply (Resolved title_A))]
        (useStatic (demo_env False False disk_ok) (call_state Map.empty JNull (Some ''42'')))
      = Some ((call_state [''post-42'' \<mapsto> title_A] title_A (Some ''42''))
               \<lparr>trace := [FactoryCall ''42'' ''post-42'']\<rparr>)"
  using server_miss_prefetches [where E = "demo_env False True disk_ok"
      and s = "call_state Map.empty JNull (Some ''42'')" and k = "''post-42''" and p = "''42''"
      and r = title_A and doc = "''<object>''" and E' = "demo_env False False disk_ok"
      and s' = "(call_state Map.empty JNull (Some ''42''))\<lparr>trace := [FactoryCall ''42'' ''post-42'']\<rparr>"]
  by (simp add: module_defs demo_defs Let_def)

text \<open>
  Claim C8 says that on the server during a static-generation build a resolved factory
  leads to exactly one write attempt. When the value is the BigInt 1, resuming the hook
  leaves the trace as it was, so there is no write attempt at all; the value is stored
  and the error of \<^verbatim>\<open>JSON.stringify\<close> rejects the hook.
\<close>

theorem no_write_attempt_when_stringify_throws:
  "process_static (demo_env False True disk_ok)
   \<and> \<not> process_client (demo_env False True disk_ok)
   \<and> trace (prefetch_resume (demo_env False True disk_ok) ''post-42'' ''42''
        (Resolved (JBigInt 1)) (call_state Map.empty JNull (Some ''42''))) = []
   \<and> result (prefetch_resume (demo_env False True disk_ok) ''post-42'' ''42''
        (Resolved (JBigInt 1)) (call_state Map.empty JNull (Some ''42''))) = JBigInt 1
   \<and> rejections (prefetch_resume (demo_env False True disk_ok) ''post-42'' ''42''
        (Resolved (JBigInt 1)) (call_state Map.empty JNull (Some ''42'')))
      = [''TypeError: Do not know how to serialize a BigInt'']"
  by (simp add: module_defs demo_defs Let_def)

text \<open>
  Claim C8, amended. On the server during static generation, a resolved factory whose
  value \<^verbatim>\<open>JSON.stringify\<close> serializes leads to exactly one write attempt, for the file of
  the captured key. Whether the write succeeds or throws, the handle holds the resolved
  value, the cache holds it under the key, and no rejection leaves the module; a thrown
  error is only logged.
\<close>

theorem write_failure_keeps_result:
  assumes "\<not> process_client E" and "process_static E" and "JSON_stringify E r = Inr doc"
  shows "trace (prefetch_resume E k p (Resolved r) s)
           = trace s
             @ [WriteFileSync (path_join E (staticPath E) (k @ ''.json'')) doc]
             @ (case writeFileSync E (path_join E (staticPath E) (k @ ''.json'')) doc of
                  None \<Rightarrow> [] | Some e \<Rightarrow> [ConsoleLog e])
         \<and> result (prefetch_resume E k p (Resolved r) s) = r
         \<and> staticCache (prefetch_resume E k p (Resolved r) s) = (staticCache s)(k \<mapsto> r)
         \<and> rejections (prefetch_resume E k p (Resolved r) s) = rejections s
         \<and> pending (prefetch_resume E k p (Resolved r) s) = pending s
         \<and> hooks (prefetch_resume E k p (Resolved r) s) = hooks s
         \<and> (writeFileSync E (path_join E (staticPath E) (k @ ''.json'')) doc = Some e \<longrightarrow>
             prefetch_resume E k p (Resolved r) s
             = s\<lparr>result := r, staticCache := (staticCache s)(k \<mapsto> r),
                 trace := trace s
                   @ [WriteFileSync (path_join E (staticPath E) (k @ ''.json'')) doc,
                      ConsoleLog e]\<rparr>)"
  using assms
  by (simp add: prefetch_resume_def writeFile_def Let_def split: option.split)

theorem write_failure_keeps_result_witness:
  "\<not> process_client (demo_env False True disk_full)
   \<and> process_static (demo_env False True disk_full)
   \<and> JSON_stringify (demo_env False True disk_full) title_A = Inr ''<object>''
   \<and> run (demo_env False True disk_full)
        [RunPrefetch, Settle 0 (FactoryReply (Resolved title_A))]
        (useStatic (demo_env False True disk_full) (call_state Map.empty JNull (Some ''42'')))
      = Some ((call_state [''post-42'' \<mapsto> title_A] title_A (Some ''42''))
               \<lparr>trace := [FactoryCall ''42'' ''post-42'',
                           WriteFileSync ''dist/static/post-42.json'' ''<object>'',
                           ConsoleLog ''ENOSPC'']\<rparr>)"
  using write_failure_keeps_result [where E = "demo_env False True disk_full"
      and s = "(call_state Map.empty JNull (Some ''42''))
                \<lparr>trace := [FactoryCall ''42'' ''post-42'']\<rparr>"
      and k = "''post-42''" and p = "''42''" and r = title_A and doc = "''<object>''"
      and e = "''ENOSPC''"]
  by (simp add: module_defs demo_defs Let_def)

text \<open>
  In general, when \<^verbatim>\<open>JSON.stringify\<close> throws on the resolved value, on the server with or
  without static generation: the two stores have happened, nothing is written, and the
  error rejects the hook.
\<close>

lemma stringify_throw_rejects_hook:
  assumes "JSON_stringify E r = Inl e"
  shows "prefetch_resume E k p (Resolved r) s
           = s\<lparr>result := r, staticCache := (staticCache s)(k \<mapsto> r),
               rejections := rejections s @ [e]\<rparr>"
  using assms by (simp add: prefetch_resume_def Let_def)

subsection \<open>Rejected factories\<close>

text \<open>
  Claim C7. When the factory rejects, on the client or in the server's prefetch hook, the
  only change to the state is that the error, as it is, joins the rejections that leave
  the module: no handler of the module catches it, the trace gets no further factory call
  (no retry), and the handle and the cache stay as they were, so a handle that was null
  stays null and an absent cache entry stays absent.
\<close>

theorem factory_rejection_propagates:
  "onFailure_then E (Rejected e) s = s\<lparr>rejections := rejections s @ [e]\<rparr>
   \<and> prefetch_resume E k p (Rejected e) s = s\<lparr>rejections := rejections s @ [e]\<rparr>
   \<and> trace (onFailure_then E (Rejected e) s) = trace s
   \<and> pending (onFailure_then E (Rejected e) s) = pending s
   \<and> trace (prefetch_resume E k p (Rejected e) s) = trace s
   \<and> pending (prefetch_resume E k p (Rejected e) s) = pending s
   \<and> hooks (prefetch_resume E k p (Rejected e) s) = hooks s
   \<and> (result s = JNull \<and> staticCache s k = None \<longrightarrow>
        result (onFailure_then E (Rejected e) s) = JNull
        \<and> staticCache (onFailure_then E (Rejected e) s) k = None
        \<and> result (prefetch_resume E k p (Rejected e) s) = JNull
        \<and> staticCache (prefetch_resume E k p (Rejected e) s) k = None)"
proof -
  have client: "onFailure_then E (Rejected e) s = s\<lparr>rejections := rejections s @ [e]\<rparr>"
    by (simp add: onFailure_then_def)
  have server: "prefetch_resume E k p (Rejected e) s = s\<lparr>rejections := rejections s @ [e]\<rparr>"
    by (simp add: prefetch_resume_def)
  show ?thesis
    unfolding client server by simp
qed

theorem factory_rejection_propagates_witness:
  "run (demo_env True False disk_ok) [Settle 0 (FactoryReply (Rejected ''boom''))]
     (useStatic (demo_env True False disk_ok) (call_state Map.empty JNull (Some ''42'')))
   = Some ((call_state Map.empty JNull (Some ''42''))
            \<lparr>trace := [FactoryCall ''42'' ''post-42''], rejections := [''boom'']\<rparr>)
   \<and> run (demo_env True True disk_ok)
       [Settle 0 (FetchReply (Rejected ''offline'')), Settle 0 (FactoryReply (Rejected ''boom''))]
       (useStatic (demo_env True True disk_ok) (call_state Map.empty JNull (Some ''42'')))
   = Some ((call_state Map.empty JNull (Some ''42''))
            \<lparr>trace := [Fetch ''/_nuxt/post-42.json'', FactoryCall ''42'' ''post-42''],
             rejections := [''boom'']\<rparr>)
   \<and> run (demo_env False True disk_ok) [RunPrefetch, Settle 0 (FactoryReply (Rejected ''boom''))]
     (useStatic (demo_env False True disk_ok) (call_state Map.empty JNull (Some ''42'')))
   = Some ((call_state Map.empty JNull (Some ''42''))
            \<lparr>trace := [FactoryCall ''42'' ''post-42''], rejections := [''boom'']\<rparr>)"
  using factory_rejection_propagates [where E = "demo_env True False disk_ok"
      and s = "(call_state Map.empty JNull (Some ''42''))
                \<lparr>trace := [FactoryCall ''42'' ''post-42'']\<rparr>"
      and e = "''boom''" and k = "''post-42''" and p = "''42''"]
  by (simp add: module_defs demo_defs Let_def)

subsection \<open>Seeding the cache from the handle\<close>

text \<open>
  Claim C9 says that a handle carrying a non-empty value at call time is seeded into the
  cache under the current key. The module's documentation promises as much: the inlined
  value is cached, so that the client does not run the request again. Line 78 tests
  \<^verbatim>\<open>if (result.value)\<close>, which is truthiness, where the cache tests of lines 93 and 117
  use \<^verbatim>\<open>in\<close> and so count a falsy value as present. A handle that holds the number 0
  is not empty (it is not \<^verbatim>\<open>null\<close>), yet it is not seeded, and the client goes on to
  call the factory.
\<close>

theorem nonempty_falsy_handle_not_seeded:
  "\<not> handle_empty (JNum 0)
   \<and> key (demo_env True False disk_ok) (call_state Map.empty (JNum 0) (Some ''42'')) = ''post-42''
   \<and> staticCache (seed_cache (demo_env True False disk_ok)
         (call_state Map.empty (JNum 0) (Some ''42''))) ''post-42'' = None
   \<and> trace (useStatic (demo_env True False disk_ok)
         (call_state Map.empty (JNum 0) (Some ''42''))) = [FactoryCall ''42'' ''post-42'']"
  by (simp add: module_defs demo_defs Let_def)

text \<open>
  What the pre-check does: a truthy value of the handle is stored in the cache under the
  current key before any resolution branch runs, and the branch that follows then finds
  it there, so \<^verbatim>\<open>useStatic\<close> does nothing more. When the value of the handle is falsy,
  the pre-check writes nothing, and the synchronous part of \<^verbatim>\<open>useStatic\<close> leaves the
  cache as it was.
\<close>

lemma seed_cache_when_truthy:
  "(truthy (result s) \<longrightarrow>
      seed_cache E s = s\<lparr>staticCache := (staticCache s)(key E s \<mapsto> result s)\<rparr>
      \<and> staticCache (seed_cache E s) (key E s) = Some (result s)
      \<and> useStatic E s = seed_cache E s)
   \<and> (\<not> truthy (result s) \<longrightarrow>
      seed_cache E s = s \<and> staticCache (useStatic E s) = staticCache s)"
  by (simp add: seed_cache_def useStatic_def watch_callback_def server_setup_def onFailure_def
      key_def Let_def split: option.split)

text \<open>
  Claim C10. A key that is in the cache is a hit on the client and on the server also when
  the value stored under it is falsy: the test is membership, not the value. The
  pre-check tests the value: a falsy handle leaves the cache unchanged, a truthy one is
  stored.
\<close>

theorem hit_by_membership_seed_by_truthiness:
  "(staticCache s k = Some v \<and> \<not> truthy v \<longrightarrow>
      watch_callback E k s = s\<lparr>result := v\<rparr>
      \<and> (k = key E s \<longrightarrow> server_setup E s = s\<lparr>result := v\<rparr>))
   \<and> (\<not> truthy (result s) \<longrightarrow> staticCache (seed_cache E s) = staticCache s)
   \<and> (\<not> truthy (result s) \<and> staticCache s (key E s) = None \<longrightarrow>
        staticCache (seed_cache E s) (key E s) = None)
   \<and> (truthy (result s) \<longrightarrow> staticCache (seed_cache E s) (key E s) = Some (result s))
   \<and> \<not> truthy (JNum 0) \<and> \<not> truthy (JStr []) \<and> \<not> truthy (JBool False) \<and> \<not> truthy JNull"
proof -
  have client: "watch_callback E k s = s\<lparr>result := v\<rparr>" if "staticCache s k = Some v"
    using that by (simp add: watch_callback_def)
  have server: "server_setup E s = s\<lparr>result := v\<rparr>"
    if "staticCache s k = Some v" and "k = key E s"
    using that by (simp add: server_setup_def)
  have falsy: "seed_cache E s = s" if "\<not> truthy (result s)"
    using that by (simp add: seed_cache_def)
  have seeded: "staticCache (seed_cache E s) (key E s) = Some (result s)" if "truthy (result s)"
    using that by (simp add: seed_cache_def)
  show ?thesis
    using client server falsy seeded by auto
qed

theorem hit_by_membership_seed_by_truthiness_witness:
  "staticCache (call_state [''post-42'' \<mapsto> JNum 0] JNull (Some ''42'')) ''post-42'' = Some (JNum 0)
   \<and> \<not> truthy (JNum 0)
   \<and> useStatic (demo_env True False disk_ok) (call_state [''post-42'' \<mapsto> JNum 0] JNull (Some ''42''))
      = call_state [''post-42'' \<mapsto> JNum 0] (JNum 0) (Some ''42'')
   \<and> useStatic (demo_env False False disk_ok) (call_state [''post-42'' \<mapsto> JStr []] JNull (Some ''42''))
      = call_state [''post-42'' \<mapsto> JStr []] (JStr []) (Some ''42'')
   \<and> useStatic (demo_env True True disk_ok) (call_state [''post-42'' \<mapsto> JBool False] JNull (Some ''42''))
      = call_state [''post-42'' \<mapsto> JBool False] (JBool False) (Some ''42'')
   \<and> staticCache (seed_cache (demo_env True False disk_ok)
        (call_state Map.empty (JBool False) (Some ''42''))) ''post-42'' = None"
  using hit_by_membership_seed_by_truthiness [where E = "demo_env True False disk_ok"
      and s = "call_state [''post-42'' \<mapsto> JNum 0] JNull (Some ''42'')"
      and k = "''post-42''" and v = "JNum 0"]
    hit_by_membership_seed_by_truthiness [where E = "demo_env True False disk_ok"
      and s = "call_state Map.empty (JBool False) (Some ''42'')"]
  by (simp add: module_defs demo_defs Let_def)

subsection \<open>A resolution that finishes after the parameter has changed\<close>

text \<open>
  Claim C6 says that a resolution finishing after the parameter has changed writes the
  cache under its own, stale key. The claim holds for the fetch chain and for the
  server's hook, which use a captured key. The continuation of \<^verbatim>\<open>onFailure\<close> does not:
  it reads \<^verbatim>\<open>key.value\<close> when it runs. With parameter 1 the factory is called for
  \<^verbatim>\<open>post-1\<close>; the parameter becomes 2 and the factory is called for \<^verbatim>\<open>post-2\<close>; then the
  first call resolves with \<^verbatim>\<open>"one"\<close>, which is stored under \<^verbatim>\<open>post-2\<close>, and \<^verbatim>\<open>post-1\<close> stays
  absent. When the second call resolves first, the stale value is what \<^verbatim>\<open>post-2\<close> keeps.
  The third run is the same interleaving on the fetch chain, which stores under
  \<^verbatim>\<open>post-1\<close>.
\<close>

theorem stale_factory_result_cached_under_new_key:
  "run (demo_env True False disk_ok)
     [SetParam ''2'', Settle 0 (FactoryReply (Resolved (JStr ''one'')))]
     (useStatic (demo_env True False disk_ok) (call_state Map.empty JNull (Some ''1'')))
   = Some ((call_state [''post-2'' \<mapsto> JStr ''one''] (JStr ''one'') (Some ''2''))
            \<lparr>trace := [FactoryCall ''1'' ''post-1'', FactoryCall ''2'' ''post-2''],
             pending := [ClientFactory]\<rparr>)
   \<and> run (demo_env True False disk_ok)
     [SetParam ''2'', Settle 1 (FactoryReply (Resolved (JStr ''two''))),
      Settle 0 (FactoryReply (Resolved (JStr ''one'')))]
     (useStatic (demo_env True False disk_ok) (call_state Map.empty JNull (Some ''1'')))
   = Some ((call_state [''post-2'' \<mapsto> JStr ''one''] (JStr ''one'') (Some ''2''))
            \<lparr>trace := [FactoryCall ''1'' ''post-1'', FactoryCall ''2'' ''post-2'']\<rparr>)
   \<and> run (demo_env True True disk_ok)
     [SetParam ''2'', Settle 0 (FetchReply (Resolved (Response True (Resolved (JStr ''one'')))))]
     (useStatic (demo_env True True disk_ok) (call_state Map.empty JNull (Some ''1'')))
   = Some ((call_state [''post-1'' \<mapsto> JStr ''one''] (JStr ''one'') (Some ''2''))
            \<lparr>trace := [Fetch ''/_nuxt/post-1.json'', Fetch ''/_nuxt/post-2.json''],
             pending := [ClientFetch ''post-2'']\<rparr>)"
  by (simp add: module_defs demo_defs Let_def)

text \<open>
  In general: the continuation of \<^verbatim>\<open>onFailure\<close> stores under the key of the state it runs
  in and leaves every other entry alone, the entry of the key its factory was called for
  included. The two paths that capture the key store under it, whatever the state they
  resume in.
\<close>

lemma onFailure_then_uses_current_key:
  assumes "key E s \<noteq> k0"
  shows "staticCache (onFailure_then E (Resolved r) s) (key E s) = Some r
         \<and> staticCache (onFailure_then E (Resolved r) s) k0 = staticCache s k0"
  using assms by (simp add: onFailure_then_def)


lemma captured_key_is_used:
  "staticCache (fetch_then E k (Resolved (Response True (Resolved j))) s) k = Some j
   \<and> staticCache (prefetch_resume E k p (Resolved r) s) k = Some r"
  by (simp add: fetch_then_def prefetch_resume_def writeFile_def Let_def
      split: option.split sum.split)

end
